theory Spec2Isabelle
  imports Complex_Main "HOL-Library.Char_ord" "HOL-Library.List_Lexorder"
    "HOL-Library.Product_Lexorder" "HOL-Library.Multiset"
begin

section \<open>Client pages: shared data\<close>

text \<open>
  The pages under \<^verbatim>\<open>frontend/src/pages\<close> declare their data as TypeScript interfaces.
  Record fields live in one name space, so the fields of \<^verbatim>\<open>Match\<close> carry the prefix
  \<^verbatim>\<open>m_\<close> where the plain name is taken (\<^verbatim>\<open>id\<close>, \<^verbatim>\<open>status\<close>). A JavaScript
  \<^verbatim>\<open>string | null\<close> is a \<open>string option\<close>; identifiers of type \<^verbatim>\<open>number\<close> are
  integers.
\<close>

record match =
  m_id :: int
  user1_id :: string
  user2_id :: string
  m_availability_id :: int
  m_status :: string
  proposed_datetime :: "string option"
  proposed_by_id :: "string option"
  confirmed_at :: "string option"

text \<open>The entries of the \<^verbatim>\<open>sent-interests\<close> query.\<close>

record sent_interest =
  target_id :: string
  availability_id :: int

text \<open>What a card of the people list needs of \<^verbatim>\<open>PersonAtLocation\<close>:
  \<^verbatim>\<open>person.user.id\<close> and \<^verbatim>\<open>person.availability.id\<close>.\<close>

record person_at_location =
  person_user_id :: string
  person_availability_id :: int

section \<open>Browse.tsx and Dashboard.tsx: interest already sent\<close>

text \<open>
  \<^verbatim>\<open>sentInterests.some((i) => i.target_id === userId && i.availability_id === availabilityId)\<close>,
  written the same way in Browse.tsx and in Dashboard.tsx.
\<close>

definition hasExpressedInterest :: "sent_interest list \<Rightarrow> string \<Rightarrow> int \<Rightarrow> bool" where
  "hasExpressedInterest sentInterests userId availabilityId =
     list_ex (\<lambda>i. target_id i = userId \<and> availability_id i = availabilityId) sentInterests"

text \<open>
  The action button of a card in Browse.tsx: a button with the attribute \<^verbatim>\<open>disabled\<close> and the
  label "Interest expressed", or the button that calls \<^verbatim>\<open>handleExpressInterest\<close>, disabled
  only while the mutation is pending.
\<close>

datatype browse_button =
  InterestExpressed
  | ImInterested (button_disabled: bool)

definition actionButton :: "sent_interest list \<Rightarrow> bool \<Rightarrow> person_at_location \<Rightarrow> browse_button" where
  "actionButton sentInterests isPending person =
     (if hasExpressedInterest sentInterests (person_user_id person) (person_availability_id person)
      then InterestExpressed
      else ImInterested isPending)"

section \<open>Meetups.tsx and Dashboard.tsx: matches by status\<close>

text \<open>Meetups.tsx: \<^verbatim>\<open>matches.filter((m) => m.status === 'pending')\<close> and its two siblings.\<close>

definition pendingMatches :: "match list \<Rightarrow> match list" where
  "pendingMatches matches = filter (\<lambda>m. m_status m = ''pending'') matches"

definition proposedMatches :: "match list \<Rightarrow> match list" where
  "proposedMatches matches = filter (\<lambda>m. m_status m = ''time_proposed'') matches"

definition confirmedMatches :: "match list \<Rightarrow> match list" where
  "confirmedMatches matches = filter (\<lambda>m. m_status m = ''confirmed'') matches"

text \<open>Dashboard.tsx keeps two lists; its pending list holds both unconfirmed statuses.\<close>

definition confirmedMatches_Dashboard :: "match list \<Rightarrow> match list" where
  "confirmedMatches_Dashboard matches = filter (\<lambda>m. m_status m = ''confirmed'') matches"

definition pendingMatches_Dashboard :: "match list \<Rightarrow> match list" where
  "pendingMatches_Dashboard matches =
     filter (\<lambda>m. m_status m = ''pending'' \<or> m_status m = ''time_proposed'') matches"

text \<open>The number of lists among \<open>buckets\<close> that show the match \<open>m\<close>.\<close>

definition shown_in :: "match \<Rightarrow> match list list \<Rightarrow> nat" where
  "shown_in m buckets = length (filter (\<lambda>b. m \<in> set b) buckets)"

section \<open>Meetups.tsx and Dashboard.tsx: the controls of a match card\<close>

text \<open>
  \<^verbatim>\<open>match.proposed_by_id === user?.id\<close>: the left side is a string or \<^verbatim>\<open>null\<close>, the right
  side a string or \<^verbatim>\<open>undefined\<close> (no user in the auth store). Strict equality holds only
  between two equal strings.
\<close>

definition isMyProposal :: "match \<Rightarrow> string option \<Rightarrow> bool" where
  "isMyProposal m userId =
     (case (proposed_by_id m, userId) of
        (Some p, Some u) \<Rightarrow> p = u
      | _ \<Rightarrow> False)"

text \<open>The component state the cards read, and the buttons and inputs a card can show.\<close>

record ui_state =
  proposingFor :: "int option"
  proposedTime :: string
  proposeTime_isPending :: bool
  confirmTime_isPending :: bool

datatype control =
  ProposeATime
  | TimeInput
  | Propose bool
  | CancelPropose
  | Confirm bool
  | SuggestDifferentTime
  | WaitingToConfirm

text \<open>Meetups.tsx, a card of \<^verbatim>\<open>proposedMatches\<close>: the waiting note for the proposer, the
  confirm and counter-proposal buttons for the other user, and the time picker while
  \<^verbatim>\<open>proposingFor === match.id\<close>. The argument of \<open>Propose\<close> and \<open>Confirm\<close> is the
  attribute \<^verbatim>\<open>disabled\<close>.\<close>

definition proposedCard :: "string option \<Rightarrow> ui_state \<Rightarrow> match \<Rightarrow> control list" where
  "proposedCard userId ui m =
     (if isMyProposal m userId then [WaitingToConfirm]
      else [Confirm (confirmTime_isPending ui), SuggestDifferentTime])
     @ (if proposingFor ui = Some (m_id m)
        then [TimeInput, Propose (proposedTime ui = [] \<or> proposeTime_isPending ui), CancelPropose]
        else [])"

text \<open>Meetups.tsx, a card of \<^verbatim>\<open>pendingMatches\<close>.\<close>

definition pendingCard :: "ui_state \<Rightarrow> match \<Rightarrow> control list" where
  "pendingCard ui m =
     (if proposingFor ui = Some (m_id m)
      then [TimeInput, Propose (proposedTime ui = [] \<or> proposeTime_isPending ui), CancelPropose]
      else [ProposeATime])"

text \<open>Meetups.tsx, the page: nothing while loading; otherwise the confirmed cards (no
  control), the proposed cards, the pending cards, each with the match it shows.\<close>

definition Meetups :: "bool \<Rightarrow> string option \<Rightarrow> ui_state \<Rightarrow> match list \<Rightarrow> (match \<times> control list) list" where
  "Meetups isLoading userId ui matches =
     (if isLoading then []
      else map (\<lambda>m. (m, [])) (confirmedMatches matches)
         @ map (\<lambda>m. (m, proposedCard userId ui m)) (proposedMatches matches)
         @ map (\<lambda>m. (m, pendingCard ui m)) (pendingMatches matches))"

text \<open>Dashboard.tsx, a card of its pending list: \<^verbatim>\<open>isPending ? (picker or propose button) :
  isMyProposal ? note : (confirm, different time)\<close>.\<close>

definition pendingCard_Dashboard :: "string option \<Rightarrow> ui_state \<Rightarrow> match \<Rightarrow> control list" where
  "pendingCard_Dashboard userId ui m =
     (let isPending = (m_status m = ''pending'') in
      if isPending then
        (if proposingFor ui = Some (m_id m)
         then [TimeInput, Propose (proposedTime ui = []), CancelPropose]
         else [ProposeATime])
      else if isMyProposal m userId then [WaitingToConfirm]
      else [Confirm False, SuggestDifferentTime])"

definition Dashboard_matches :: "string option \<Rightarrow> ui_state \<Rightarrow> match list \<Rightarrow> (match \<times> control list) list" where
  "Dashboard_matches userId ui matches =
     map (\<lambda>m. (m, [])) (confirmedMatches_Dashboard matches)
     @ map (\<lambda>m. (m, pendingCard_Dashboard userId ui m)) (pendingMatches_Dashboard matches)"

text \<open>A card offers the confirm action when it holds a confirm button.\<close>

definition offers_confirm :: "control list \<Rightarrow> bool" where
  "offers_confirm cs = list_ex (\<lambda>c. case c of Confirm d \<Rightarrow> True | _ \<Rightarrow> False) cs"

definition offers_propose :: "control list \<Rightarrow> bool" where
  "offers_propose cs = list_ex (\<lambda>c. c = ProposeATime \<or> c = TimeInput) cs"

section \<open>AvailabilityForm.tsx: handleSubmit\<close>

text \<open>
  The form's state (\<^verbatim>\<open>useState\<close>): the picked location or \<^verbatim>\<open>null\<close>, the two values
  of the time inputs, the toggled days, the radius (a number, or the empty string as
  \<open>None\<close>) and the error message. Times are compared as JavaScript compares strings, by
  code units from the left: the lexicographic order of \<open>string\<close>.
\<close>

record location =
  name :: string
  address :: string
  loc_latitude :: real
  loc_longitude :: real

record slot_data =
  location_name :: string
  latitude :: real
  longitude :: real
  radius_meters :: "int option"
  time_start :: string
  time_end :: string
  repeat_days :: "nat list"

record form_state =
  location :: "location option"
  timeStart :: string
  timeEnd :: string
  repeatDays :: "nat list"
  radiusMeters :: "int option"
  error :: string

text \<open>What \<^verbatim>\<open>await onSubmit(...)\<close> can throw: an \<^verbatim>\<open>Error\<close> with its message, or any
  other value.\<close>

datatype thrown = Error string | NotAnError

text \<open>
  \<^verbatim>\<open>handleSubmit\<close> returns the state after the handler and the argument of the one call of
  \<^verbatim>\<open>onSubmit\<close>, if it was called. \<^verbatim>\<open>radiusMeters || null\<close> turns the empty string and
  0 into \<^verbatim>\<open>null\<close>; \<^verbatim>\<open>repeatDays.sort((a, b) => a - b)\<close> sorts the array of the state in
  place.
\<close>

definition handleSubmit :: "(slot_data \<Rightarrow> thrown option) \<Rightarrow> form_state \<Rightarrow> form_state \<times> slot_data option" where
  "handleSubmit onSubmit st =
     (case location st of
        None \<Rightarrow> (st\<lparr>error := ''Please select a location''\<rparr>, None)
      | Some loc \<Rightarrow>
          if length (repeatDays st) = 0
          then (st\<lparr>error := ''Please select at least one day''\<rparr>, None)
          else if timeStart st \<ge> timeEnd st
          then (st\<lparr>error := ''End time must be after start time''\<rparr>, None)
          else
            (let days = sort (repeatDays st);
                 data = \<lparr>location_name = name loc,
                         latitude = loc_latitude loc,
                         longitude = loc_longitude loc,
                         radius_meters =
                           (case radiusMeters st of None \<Rightarrow> None
                            | Some r \<Rightarrow> if r = 0 then None else Some r),
                         time_start = timeStart st,
                         time_end = timeEnd st,
                         repeat_days = days\<rparr>
             in (st\<lparr>repeatDays := days,
                    error := (case onSubmit data of
                                None \<Rightarrow> []
                              | Some (Error msg) \<Rightarrow> msg
                              | Some NotAnError \<Rightarrow> ''Failed to save'')\<rparr>,
                 Some data)))"

text \<open>
  The value of an \<^verbatim>\<open><input type="time">\<close> without seconds has the form \<^verbatim>\<open>HH:MM\<close>.
  \<open>clock_minutes\<close> reads such a string as the minutes after midnight, to compare the order
  of the strings with the order of the clock times they stand for.
\<close>

definition digit :: "char \<Rightarrow> nat option" where
  "digit c = (if CHR ''0'' \<le> c \<and> c \<le> CHR ''9'' then Some (of_char c - 48) else None)"

fun clock_minutes :: "string \<Rightarrow> nat option" where
  "clock_minutes [h1, h2, c, m1, m2] =
     (case (digit h1, digit h2, digit m1, digit m2) of
        (Some a, Some b, Some x, Some y) \<Rightarrow>
          if c = CHR '':'' \<and> 10 * a + b < 24 \<and> 10 * x + y < 60
          then Some ((10 * a + b) * 60 + (10 * x + y)) else None
      | _ \<Rightarrow> None)"
| "clock_minutes _ = None"

section \<open>Dashboard.tsx: handleSaveSpot\<close>

record new_spot =
  lat :: real
  lng :: real
  spot_address :: string

record dashboard_state =
  newSpot :: "new_spot option"
  newSpotDate :: string
  newSpotTimeStart :: string
  newSpotTimeEnd :: string
  newSpotRepeat :: bool
  newSpotRepeatDays :: "nat list"

text \<open>The argument of \<^verbatim>\<open>createAvailability.mutate\<close>.\<close>

record availability_create =
  new_location_name :: string
  new_latitude :: real
  new_longitude :: real
  new_time_start :: string
  new_time_end :: string
  new_repeat_days :: "nat list"

definition DAY_NAMES :: "string list" where
  "DAY_NAMES = [''Mon'', ''Tue'', ''Wed'', ''Thu'', ''Fri'', ''Sat'', ''Sun'']"

text \<open>
  The weekday numbering of \<^verbatim>\<open>Date.prototype.getDay\<close>, which the comment
  \<^verbatim>\<open>// Convert Sun=0 to Mon=0\<close> refers to: 0 is Sunday, 6 is Saturday.
\<close>

definition getDay_names :: "string list" where
  "getDay_names = [''Sun'', ''Mon'', ''Tue'', ''Wed'', ''Thu'', ''Fri'', ''Sat'']"

text \<open>
  \<^verbatim>\<open>handleSaveSpot\<close>. The parameter \<open>getDay\<close> is the runtime's
  \<^verbatim>\<open>new Date(newSpotDate).getDay()\<close>, a function of the date string. The result is the
  argument of the create call, \<open>None\<close> when the handler returns at \<^verbatim>\<open>if (!newSpot) return\<close>.
  The empty string is the one falsy value of \<^verbatim>\<open>newSpotDate\<close>.
\<close>

definition handleSaveSpot :: "(string \<Rightarrow> nat) \<Rightarrow> dashboard_state \<Rightarrow> availability_create option" where
  "handleSaveSpot getDay st =
     (case newSpot st of
        None \<Rightarrow> None
      | Some spot \<Rightarrow>
          (let repeatDays =
                 (if \<not> newSpotRepeat st \<and> newSpotDate st \<noteq> []
                  then (let dayOfWeek = (getDay (newSpotDate st) + 6) mod 7 in [dayOfWeek])
                  else newSpotRepeatDays st)
           in Some \<lparr>new_location_name = spot_address spot,
                    new_latitude = lat spot,
                    new_longitude = lng spot,
                    new_time_start = newSpotTimeStart st,
                    new_time_end = newSpotTimeEnd st,
                    new_repeat_days = repeatDays\<rparr>))"

text \<open>The save button is shown with the form (\<^verbatim>\<open>newSpot &&\<close>) and carries
  \<^verbatim>\<open>disabled={createAvailability.isPending || (!newSpotDate && !newSpotRepeat)}\<close>.\<close>

definition save_disabled :: "bool \<Rightarrow> dashboard_state \<Rightarrow> bool" where
  "save_disabled isPending st = (isPending \<or> (newSpotDate st = [] \<and> \<not> newSpotRepeat st))"

definition save_enabled :: "bool \<Rightarrow> dashboard_state \<Rightarrow> bool" where
  "save_enabled isPending st = (newSpot st \<noteq> None \<and> \<not> save_disabled isPending st)"

section \<open>The engine: data\<close>

text \<open>
  The discovery, matching and group engine runs on the server, whose code is not among the
  sources; the pages above only call it. Its data and operations are modelled from the
  specification, sections 3 and 4. Users and slots belong to collaborators (the account store
  and the availability store), which the engine reads through \<open>getUser\<close> and the slot
  list \<open>store\<close>, kept in creation order.
\<close>

type_synonym user_id = string
type_synonym slot_id = nat

text \<open>Modelled from the spec: the User attributes of section 3 (the account store is
  missing). A \<open>None\<close> age bound is no filter, an empty gender preference is any.\<close>

record user =
  age :: nat
  gender :: string
  interests :: "string set"
  is_available :: bool
  min_age_pref :: "nat option"
  max_age_pref :: "nat option"
  gender_pref :: "string set"
  min_group_size :: nat
  max_group_size :: nat

text \<open>Modelled from the spec: the AvailabilitySlot of section 3 (the availability store is
  missing). Clock times are minutes after midnight, days are the weekdays 0..6.\<close>

record slot =
  slot_ident :: slot_id
  slot_owner :: user_id
  slot_location :: string
  slot_start :: nat
  slot_end :: nat
  slot_days :: "nat set"
  slot_active :: bool

text \<open>Modelled from the spec: the inputs of section 6, \<^verbatim>\<open>getUser(id)\<close> of the account
  collaborator and the slots of the availability store with \<^verbatim>\<open>getSlotById(id)\<close>.\<close>

record env =
  getUser :: "user_id \<Rightarrow> user"
  store :: "slot list"

definition getSlotById :: "env \<Rightarrow> slot_id \<Rightarrow> slot option" where
  "getSlotById e sid = find (\<lambda>s. slot_ident s = sid) (store e)"

text \<open>Modelled from the spec: \<^verbatim>\<open>visible(slot) = owner.isAvailable && slot.isActive\<close>
  (section 9).\<close>

definition visible :: "env \<Rightarrow> slot \<Rightarrow> bool" where
  "visible e s = (is_available (getUser e (slot_owner s)) \<and> slot_active s)"

text \<open>Modelled from the spec: a user "currently holds" a slot when the slot is theirs, active
  and visible (the reciprocity rule of section 4.2).\<close>

definition holds :: "env \<Rightarrow> user_id \<Rightarrow> slot_id \<Rightarrow> bool" where
  "holds e u sid =
     (case getSlotById e sid of
        None \<Rightarrow> False
      | Some s \<Rightarrow> slot_owner s = u \<and> visible e s)"

section \<open>The engine: overlap evaluator\<close>

record window =
  window_days :: "nat set"
  window_start :: nat
  window_end :: nat

record overlap_result =
  overlap :: bool
  windows :: "window list"

text \<open>
  Modelled from the spec: \<^verbatim>\<open>overlaps(slotA, slotB)\<close> of section 4.1 (the evaluator is
  missing). The repeat days are intersected; if none is shared there is no overlap. On the
  shared days the intervals \<^verbatim>\<open>[start, end)\<close> are intersected by clamping; an intersection
  of length zero or less is no overlap. Each slot has one interval, so the shared days form
  one window.
\<close>

definition overlaps :: "slot \<Rightarrow> slot \<Rightarrow> overlap_result" where
  "overlaps slotA slotB =
     (let shared = slot_days slotA \<inter> slot_days slotB;
          lo = max (slot_start slotA) (slot_start slotB);
          hi = min (slot_end slotA) (slot_end slotB)
      in if shared = {} then \<lparr>overlap = False, windows = []\<rparr>
         else if hi \<le> lo then \<lparr>overlap = False, windows = []\<rparr>
         else \<lparr>overlap = True,
               windows = [\<lparr>window_days = shared, window_start = lo, window_end = hi\<rparr>]\<rparr>)"

section \<open>The engine: ledger, matches, groups\<close>

text \<open>Modelled from the spec: the error kinds of sections 4 and 7.\<close>

datatype engine_error =
  InvalidTarget
  | DuplicateExpression
  | DuplicateMatch
  | AlreadyMember
  | DuplicatePendingRequest
  | GroupFull
  | NotAMember
  | AlreadyResolved
  | NotFound

text \<open>Modelled from the spec: the Match, Group, GroupMember and GroupJoinRequest of section
  3 (the server's models are missing), with the fields the operations below read or write.\<close>

datatype match_status = match_pending | match_time_proposed | match_confirmed

record engine_match =
  user_a :: user_id
  user_b :: user_id
  slot_context :: slot_id
  status :: match_status

datatype role = role_founder | role_member
datatype member_status = member_confirmed | member_pending

record group_member =
  gm_user :: user_id
  gm_role :: role
  gm_status :: member_status

record group =
  anchor :: slot_id
  members :: "group_member list"

datatype request_status = request_pending | accepted | declined

record join_request =
  jr_group :: nat
  jr_requester :: user_id
  jr_status :: request_status

text \<open>Modelled from the spec: the persisted state of section 5. A group's id is its position in \<open>groups\<close>, a request's id its
  position in \<open>join_requests\<close>; the ledger holds the triples (actor, target, slot).\<close>

record engine =
  ledger :: "(user_id \<times> user_id \<times> slot_id) list"
  engine_matches :: "engine_match list"
  groups :: "group list"
  join_requests :: "join_request list"

text \<open>Modelled from the spec: the state before any call, and the confirmed members of a
  group in the order in which they joined.\<close>

definition initial_engine :: engine where
  "initial_engine = \<lparr>ledger = [], engine_matches = [], groups = [], join_requests = []\<rparr>"

definition confirmed_members :: "group \<Rightarrow> user_id list" where
  "confirmed_members g = map gm_user (filter (\<lambda>m. gm_status m = member_confirmed) (members g))"

text \<open>Modelled from the spec: "group size = count of confirmed members" (section 3).\<close>

definition confirmedMemberCount :: "group \<Rightarrow> nat" where
  "confirmedMemberCount g = length (confirmed_members g)"

text \<open>Modelled from the spec: adding a user as a confirmed member (section 4.4); a user has
  at most one confirmed membership per group (section 3).\<close>

definition add_confirmed :: "group \<Rightarrow> user_id \<Rightarrow> group" where
  "add_confirmed g u =
     (if u \<in> set (confirmed_members g) then g
      else g\<lparr>members := members g
               @ [\<lparr>gm_user = u, gm_role = role_member, gm_status = member_confirmed\<rparr>]\<rparr>)"

text \<open>Modelled from the spec: the group \<^verbatim>\<open>formOrJoin\<close> creates, all initial members
  confirmed and the first the founder (section 4.4).\<close>

definition new_group :: "slot_id \<Rightarrow> user_id list \<Rightarrow> group" where
  "new_group ctx initialMembers =
     \<lparr>anchor = ctx,
      members = (case initialMembers of
                   [] \<Rightarrow> []
                 | u # us \<Rightarrow>
                     \<lparr>gm_user = u, gm_role = role_founder, gm_status = member_confirmed\<rparr>
                     # map (\<lambda>v. \<lparr>gm_user = v, gm_role = role_member, gm_status = member_confirmed\<rparr>) us)\<rparr>"

text \<open>
  Modelled from the spec: \<^verbatim>\<open>formOrJoin(slotContext, initialMembers)\<close> of section 4.4 (the
  group engine is missing). Without a group at the context it creates one, all initial
  members confirmed and the first the founder; with one it adds the new member as confirmed
  directly. It reads no preference.
\<close>

fun formOrJoin :: "slot_id \<Rightarrow> user_id list \<Rightarrow> group list \<Rightarrow> group list" where
  "formOrJoin ctx initialMembers [] = [new_group ctx initialMembers]"
| "formOrJoin ctx initialMembers (g # gs) =
     (if anchor g = ctx then foldl add_confirmed g initialMembers # gs
      else g # formOrJoin ctx initialMembers gs)"

text \<open>Modelled from the spec: \<^verbatim>\<open>max(confirmed members' min_group_size)\<close> of section 4.4,
  0 for a group without confirmed member.\<close>

definition max_min_group_size :: "env \<Rightarrow> group \<Rightarrow> nat" where
  "max_min_group_size e g =
     foldr max (map (\<lambda>m. min_group_size (getUser e m)) (confirmed_members g)) 0"

text \<open>
  Modelled from the spec: \<^verbatim>\<open>requestJoin(groupId, requesterId)\<close> of section 4.4. The checks
  are in the order of the text: \<^verbatim>\<open>AlreadyMember\<close>, \<^verbatim>\<open>DuplicatePendingRequest\<close>, then
  \<^verbatim>\<open>GroupFull\<close> if the confirmed count has reached the \<^verbatim>\<open>max_group_size\<close> of some
  confirmed member. Otherwise a pending request is created; the flag returned is "tentative".
\<close>

definition requestJoin :: "env \<Rightarrow> nat \<Rightarrow> user_id \<Rightarrow> engine \<Rightarrow> engine_error + (engine \<times> bool)" where
  "requestJoin e groupId requesterId st =
     (if length (groups st) \<le> groupId then Inl NotFound
      else
        (let g = groups st ! groupId;
             currentSize = confirmedMemberCount g
         in if requesterId \<in> set (confirmed_members g) then Inl AlreadyMember
            else if list_ex (\<lambda>r. jr_group r = groupId \<and> jr_requester r = requesterId
                                  \<and> jr_status r = request_pending) (join_requests st)
            then Inl DuplicatePendingRequest
            else if list_ex (\<lambda>m. max_group_size (getUser e m) \<le> currentSize)
                      (confirmed_members g)
            then Inl GroupFull
            else Inr (st\<lparr>join_requests := join_requests st
                           @ [\<lparr>jr_group = groupId, jr_requester = requesterId,
                               jr_status = request_pending\<rparr>]\<rparr>,
                      currentSize + 1 < max_min_group_size e g)))"

text \<open>
  Modelled from the spec: \<^verbatim>\<open>respondToJoinRequest(requestId, responderId, accept)\<close> of
  section 4.4: \<^verbatim>\<open>NotAMember\<close>, then \<^verbatim>\<open>AlreadyResolved\<close>; on accept the request becomes
  accepted and the requester a confirmed member, on decline the request becomes declined.
\<close>

definition respondToJoinRequest :: "nat \<Rightarrow> user_id \<Rightarrow> bool \<Rightarrow> engine \<Rightarrow> engine_error + engine" where
  "respondToJoinRequest requestId responderId accept st =
     (if length (join_requests st) \<le> requestId then Inl NotFound
      else
        (let r = join_requests st ! requestId in
         if length (groups st) \<le> jr_group r then Inl NotFound
         else
           (let g = groups st ! jr_group r in
            if responderId \<notin> set (confirmed_members g) then Inl NotAMember
            else if jr_status r \<noteq> request_pending then Inl AlreadyResolved
            else if accept
            then Inr (st\<lparr>join_requests := (join_requests st)[requestId := r\<lparr>jr_status := accepted\<rparr>],
                         groups := (groups st)[jr_group r := add_confirmed g (jr_requester r)]\<rparr>)
            else Inr (st\<lparr>join_requests :=
                           (join_requests st)[requestId := r\<lparr>jr_status := declined\<rparr>]\<rparr>))))"

text \<open>
  Modelled from the spec: \<^verbatim>\<open>createOnReciprocity(userA, userB, slotContext)\<close> of section
  4.3 (the matching engine is missing): \<^verbatim>\<open>DuplicateMatch\<close> if the pair has a match at the
  context; otherwise a pending match, and \<^verbatim>\<open>formOrJoin\<close> with the two users.
\<close>

definition createOnReciprocity :: "user_id \<Rightarrow> user_id \<Rightarrow> slot_id \<Rightarrow> engine \<Rightarrow> engine_error + engine" where
  "createOnReciprocity userA userB slotContext st =
     (if list_ex (\<lambda>m. slot_context m = slotContext
                      \<and> ((user_a m = userA \<and> user_b m = userB)
                         \<or> (user_a m = userB \<and> user_b m = userA))) (engine_matches st)
      then Inl DuplicateMatch
      else Inr (st\<lparr>engine_matches := engine_matches st
                     @ [\<lparr>user_a = userA, user_b = userB, slot_context = slotContext,
                         status = match_pending\<rparr>],
                   groups := formOrJoin slotContext [userA, userB] (groups st)\<rparr>))"

text \<open>
  Modelled from the spec: the reciprocity rule of section 4.2. The expression of \<open>actor\<close>
  toward \<open>target\<close> at \<open>slotId\<close> is reciprocated when the target holds that slot and the
  ledger has an expression of the target toward the actor for a slot the actor holds.
\<close>

definition reciprocated :: "env \<Rightarrow> engine \<Rightarrow> user_id \<Rightarrow> user_id \<Rightarrow> slot_id \<Rightarrow> bool" where
  "reciprocated e st actor target slotId =
     (holds e target slotId
      \<and> list_ex (\<lambda>(a, t, s). a = target \<and> t = actor \<and> holds e actor s) (ledger st))"

text \<open>Modelled from the spec: what \<^verbatim>\<open>expressInterest\<close> returns (section 4.2), whether a
  mutual match resulted, and the benign conflict of a repeated call (section 7).\<close>

record express_outcome =
  mutual_match :: bool
  conflict :: "engine_error option"

text \<open>
  Modelled from the spec: \<^verbatim>\<open>expressInterest(actorId, targetId, slotId)\<close> of section 4.2 (the
  ledger is missing). \<^verbatim>\<open>InvalidTarget\<close> if actor and target are the same. A triple already
  in the ledger is the conflict \<^verbatim>\<open>DuplicateExpression\<close>, treated as the idempotent no-op of
  sections 4.2, 7 and 8: nothing is written, matching is not triggered, and the mutual-match
  outcome is reported. Otherwise the triple is recorded, and on reciprocity the matching
  engine is triggered at the slot of this, the later, expression; a \<^verbatim>\<open>DuplicateMatch\<close>
  there is a skip, not an error of the call.
\<close>

definition expressInterest :: "env \<Rightarrow> user_id \<Rightarrow> user_id \<Rightarrow> slot_id \<Rightarrow> engine \<Rightarrow> engine_error + (engine \<times> express_outcome)" where
  "expressInterest e actorId targetId slotId st =
     (if actorId = targetId then Inl InvalidTarget
      else if (actorId, targetId, slotId) \<in> set (ledger st)
      then Inr (st, \<lparr>mutual_match = reciprocated e st actorId targetId slotId,
                     conflict = Some DuplicateExpression\<rparr>)
      else
        (let st1 = st\<lparr>ledger := ledger st @ [(actorId, targetId, slotId)]\<rparr> in
         if reciprocated e st actorId targetId slotId
         then (case createOnReciprocity actorId targetId slotId st1 of
                 Inl err \<Rightarrow> Inr (st1, \<lparr>mutual_match = True, conflict = None\<rparr>)
               | Inr st2 \<Rightarrow> Inr (st2, \<lparr>mutual_match = True, conflict = None\<rparr>))
         else Inr (st1, \<lparr>mutual_match = False, conflict = None\<rparr>)))"

text \<open>Modelled from the spec: the calls a client can make, and a run of calls from the
  empty state; a failed call leaves the state as it was (section 7, all-or-nothing).\<close>

datatype call =
  ExpressInterest user_id user_id slot_id
  | RequestJoin nat user_id
  | RespondToJoinRequest nat user_id bool

definition apply_call :: "env \<Rightarrow> engine \<Rightarrow> call \<Rightarrow> engine" where
  "apply_call e st c =
     (case c of
        ExpressInterest a t s \<Rightarrow>
          (case expressInterest e a t s st of Inl err \<Rightarrow> st | Inr (st', out) \<Rightarrow> st')
      | RequestJoin g u \<Rightarrow>
          (case requestJoin e g u st of Inl err \<Rightarrow> st | Inr (st', tentative) \<Rightarrow> st')
      | RespondToJoinRequest r u accept \<Rightarrow>
          (case respondToJoinRequest r u accept st of Inl err \<Rightarrow> st | Inr st' \<Rightarrow> st'))"

definition run :: "env \<Rightarrow> call list \<Rightarrow> engine" where
  "run e calls = foldl (apply_call e) initial_engine calls"

text \<open>Modelled from the spec: the group-size invariant of section 8,
  \<^verbatim>\<open>confirmedMemberCount(G) <= min(m.max_group_size for m in confirmed members of G)\<close>.\<close>

definition group_size_invariant :: "env \<Rightarrow> engine \<Rightarrow> bool" where
  "group_size_invariant e st =
     list_all (\<lambda>g. list_all (\<lambda>m. confirmedMemberCount g \<le> max_group_size (getUser e m))
                      (confirmed_members g)) (groups st)"

section \<open>The engine: discovery view\<close>

text \<open>Modelled from the spec: one direction of the preference check of section 4.5 (the
  discovery view is missing). The person's age is within the viewer's bounds, a missing bound
  being no bound, and the viewer's gender preference is empty or contains the person's
  gender.\<close>

definition accepts :: "user \<Rightarrow> user \<Rightarrow> bool" where
  "accepts viewer person =
     ((case min_age_pref viewer of None \<Rightarrow> True | Some lo \<Rightarrow> lo \<le> age person)
      \<and> (case max_age_pref viewer of None \<Rightarrow> True | Some hi \<Rightarrow> age person \<le> hi)
      \<and> (gender_pref viewer = {} \<or> gender person \<in> gender_pref viewer))"

datatype tier = FullMatch | PartialMatch | NoMatch

text \<open>Modelled from the spec: the three tiers. Full is both directions, partial exactly one
  of the two, no match neither.\<close>

definition preference_tier :: "user \<Rightarrow> user \<Rightarrow> tier" where
  "preference_tier viewer person =
     (if accepts viewer person \<and> accepts person viewer then FullMatch
      else if accepts viewer person \<or> accepts person viewer then PartialMatch
      else NoMatch)"

text \<open>Modelled from the spec: the descending priority of the tiers, smaller first.\<close>

fun tier_rank :: "tier \<Rightarrow> nat" where
  "tier_rank FullMatch = 0"
| "tier_rank PartialMatch = 1"
| "tier_rank NoMatch = 2"

text \<open>Modelled from the spec: the PersonView of section 4.5.\<close>

record person_view =
  pv_user :: user_id
  pv_slot :: slot
  sharedInterests :: "string set"
  otherInterests :: "string set"
  times_overlap :: bool

text \<open>Modelled from the spec: the view of one slot at the location. Shared interests are the
  intersection of the two tag sets, the other interests the person's remaining tags, and the
  overlap is evaluated against the viewer's own slots at the location, false without one.\<close>

definition view_of :: "env \<Rightarrow> user_id \<Rightarrow> slot list \<Rightarrow> slot \<Rightarrow> person_view" where
  "view_of e viewerId mine s =
     (let shared = interests (getUser e viewerId) \<inter> interests (getUser e (slot_owner s))
      in \<lparr>pv_user = slot_owner s,
          pv_slot = s,
          sharedInterests = shared,
          otherInterests = interests (getUser e (slot_owner s)) - shared,
          times_overlap = list_ex (\<lambda>m. overlap (overlaps m s)) mine\<rparr>)"

text \<open>Modelled from the spec: every other visible slot at the location of the target slot,
  in slot creation order.\<close>

definition gather :: "env \<Rightarrow> user_id \<Rightarrow> slot \<Rightarrow> person_view list" where
  "gather e viewerId target =
     (let mine = filter (\<lambda>s. slot_owner s = viewerId
                            \<and> slot_location s = slot_location target) (store e)
      in map (view_of e viewerId mine)
           (filter (\<lambda>s. slot_location s = slot_location target \<and> slot_owner s \<noteq> viewerId
                        \<and> visible e s) (store e)))"

text \<open>Modelled from the spec: the sort key of section 4.5, compared from the left: the
  tier, then overlap present before absent, then the number of shared interests, larger
  first.\<close>

definition ranking_key :: "env \<Rightarrow> user_id \<Rightarrow> person_view \<Rightarrow> nat \<times> nat \<times> int" where
  "ranking_key e viewerId p =
     (tier_rank (preference_tier (getUser e viewerId) (getUser e (pv_user p))),
      (if times_overlap p then 0 else 1),
      - int (card (sharedInterests p)))"

text \<open>
  Modelled from the spec: \<^verbatim>\<open>peopleAtLocation(viewerId, slotId)\<close> of section 4.5, a stable
  sort of the gathered views by the key, so that views of equal key stay in slot creation
  order. An unknown slot is \<^verbatim>\<open>NotFound\<close>.
\<close>

definition peopleAtLocation :: "env \<Rightarrow> user_id \<Rightarrow> slot_id \<Rightarrow> engine_error + person_view list" where
  "peopleAtLocation e viewerId slotId =
     (case getSlotById e slotId of
        None \<Rightarrow> Inl NotFound
      | Some target \<Rightarrow> Inr (sort_key (ranking_key e viewerId) (gather e viewerId target)))"

text \<open>Modelled from the spec: the ordering in the words of section 4.5, \<open>p\<close> is not
  ranked after \<open>q\<close>.\<close>

definition ranks_no_later :: "env \<Rightarrow> user_id \<Rightarrow> person_view \<Rightarrow> person_view \<Rightarrow> bool" where
  "ranks_no_later e viewerId p q =
     (let tp = tier_rank (preference_tier (getUser e viewerId) (getUser e (pv_user p)));
          tq = tier_rank (preference_tier (getUser e viewerId) (getUser e (pv_user q)))
      in tp < tq
         \<or> (tp = tq \<and> times_overlap p \<and> \<not> times_overlap q)
         \<or> (tp = tq \<and> times_overlap p = times_overlap q
             \<and> card (sharedInterests q) \<le> card (sharedInterests p)))"

section \<open>Example data\<close>

text \<open>The users and slots of the scenarios of section 8: Alex, Jordan and Sam at Central
  Park, with Alex's largest and Jordan's smallest comfortable group as parameters.\<close>

definition a_user :: "nat \<Rightarrow> string \<Rightarrow> nat \<Rightarrow> nat \<Rightarrow> user" where
  "a_user a g lo hi = \<lparr>age = a, gender = g, interests = {}, is_available = True,
     min_age_pref = None, max_age_pref = None, gender_pref = {},
     min_group_size = lo, max_group_size = hi\<rparr>"

definition park_slot :: "nat \<Rightarrow> user_id \<Rightarrow> nat \<Rightarrow> nat \<Rightarrow> nat set \<Rightarrow> slot" where
  "park_slot i u t1 t2 ds = \<lparr>slot_ident = i, slot_owner = u, slot_location = ''Central Park'',
     slot_start = t1, slot_end = t2, slot_days = ds, slot_active = True\<rparr>"

definition central_park :: "nat \<Rightarrow> nat \<Rightarrow> env" where
  "central_park alex_max jordan_min =
     \<lparr>getUser = (\<lambda>u. if u = ''alex'' then a_user 25 ''male'' 2 alex_max
                     else if u = ''jordan'' then a_user 30 ''female'' jordan_min 10
                     else a_user 28 ''non-binary'' 2 10),
      store = [park_slot 1 ''alex'' 1080 1200 {0, 2},
               park_slot 2 ''jordan'' 1140 1260 {0},
               park_slot 3 ''sam'' 1080 1200 {0}]\<rparr>"

text \<open>The group of Scenario A, formed at Alex's slot by Jordan's later expression.\<close>

definition pair_group :: group where
  "pair_group = \<lparr>anchor = 1,
     members = [\<lparr>gm_user = ''jordan'', gm_role = role_founder, gm_status = member_confirmed\<rparr>,
                \<lparr>gm_user = ''alex'', gm_role = role_member, gm_status = member_confirmed\<rparr>]\<rparr>"

definition pair_engine :: engine where
  "pair_engine = \<lparr>ledger = [(''alex'', ''jordan'', 2), (''jordan'', ''alex'', 1)],
     engine_matches = [\<lparr>user_a = ''jordan'', user_b = ''alex'', slot_context = 1,
                        status = match_pending\<rparr>],
     groups = [pair_group],
     join_requests = []\<rparr>"

text \<open>Scenario E: the viewer prefers ages 25 to 35 and women; at the location are a woman
  of 28, a man of 30 and a woman of 40, their slots created in this order. The first two have
  no preference of their own; the third accepts ages up to \<open>limit\<close> if one is given, and
  has no preference either with \<open>None\<close>.\<close>

definition scenario_E :: "nat option \<Rightarrow> env" where
  "scenario_E limit =
     \<lparr>getUser = (\<lambda>u. if u = ''viewer''
                       then (a_user 30 ''male'' 2 10)\<lparr>min_age_pref := Some 25,
                              max_age_pref := Some 35, gender_pref := {''female''}\<rparr>
                     else if u = ''first'' then a_user 28 ''female'' 2 10
                     else if u = ''second'' then a_user 30 ''male'' 2 10
                     else (a_user 40 ''female'' 2 10)\<lparr>max_age_pref := limit\<rparr>),
      store = [park_slot 1 ''first'' 600 660 {0},
               park_slot 2 ''second'' 600 660 {0},
               park_slot 3 ''third'' 600 660 {0}]\<rparr>"


text \<open>Three matches as the matches query returns them: one new, one with a time proposed by
  the viewer \<^verbatim>\<open>u1\<close>, one with a time proposed by the other user.\<close>

definition match_new :: match where
  "match_new = \<lparr>m_id = 1, user1_id = ''u1'', user2_id = ''u2'', m_availability_id = 10,
     m_status = ''pending'', proposed_datetime = None, proposed_by_id = None,
     confirmed_at = None\<rparr>"

definition match_mine :: match where
  "match_mine = \<lparr>m_id = 2, user1_id = ''u1'', user2_id = ''u3'', m_availability_id = 11,
     m_status = ''time_proposed'', proposed_datetime = Some ''2025-06-01T18:00'',
     proposed_by_id = Some ''u1'', confirmed_at = None\<rparr>"

definition match_theirs :: match where
  "match_theirs = \<lparr>m_id = 3, user1_id = ''u4'', user2_id = ''u1'', m_availability_id = 12,
     m_status = ''time_proposed'', proposed_datetime = Some ''2025-06-02T18:00'',
     proposed_by_id = Some ''u4'', confirmed_at = None\<rparr>"

definition ui_idle :: ui_state where
  "ui_idle = \<lparr>proposingFor = None, proposedTime = [], proposeTime_isPending = False,
     confirmTime_isPending = False\<rparr>"

text \<open>A filled availability form, and the "Add this spot" form of the dashboard.\<close>

definition form_filled :: "string \<Rightarrow> string \<Rightarrow> form_state" where
  "form_filled t1 t2 =
     \<lparr>location = Some \<lparr>name = ''Cafe'', address = ''1 Main St'', loc_latitude = 40,
                        loc_longitude = -74\<rparr>,
      timeStart = t1, timeEnd = t2, repeatDays = [2, 0], radiusMeters = None, error = []\<rparr>"

definition spot_form :: "string \<Rightarrow> bool \<Rightarrow> nat list \<Rightarrow> dashboard_state" where
  "spot_form date weekly days =
     \<lparr>newSpot = Some \<lparr>lat = 40, lng = -74, spot_address = ''1 Main St''\<rparr>,
      newSpotDate = date, newSpotTimeStart = ''09:00'', newSpotTimeEnd = ''17:00'',
      newSpotRepeat = weekly, newSpotRepeatDays = days\<rparr>"

section \<open>Theorems\<close>

text \<open>
  C6. \<^verbatim>\<open>hasExpressedInterest(userId, availabilityId)\<close> is true exactly when the sent-interests
  list holds an entry with that target and that availability, and the card of a person shows
  the disabled "interest expressed" button exactly when the pair of the person and the slot
  is in the list; otherwise it shows the button that sends the interest.
\<close>

theorem hasExpressedInterest_iff:
  "(hasExpressedInterest sent userId availabilityId
      \<longleftrightarrow> (\<exists>i \<in> set sent. target_id i = userId \<and> availability_id i = availabilityId))
   \<and> (actionButton sent pending person = InterestExpressed
      \<longleftrightarrow> (\<exists>i \<in> set sent. target_id i = person_user_id person
                \<and> availability_id i = person_availability_id person))
   \<and> (actionButton sent pending person = ImInterested pending
      \<longleftrightarrow> \<not> (\<exists>i \<in> set sent. target_id i = person_user_id person
                \<and> availability_id i = person_availability_id person))"
  by (simp add: hasExpressedInterest_def actionButton_def list_ex_iff)

theorem hasExpressedInterest_iff_witness:
  "hasExpressedInterest
     [\<lparr>target_id = ''u1'', availability_id = 3\<rparr>, \<lparr>target_id = ''u2'', availability_id = 7\<rparr>]
     ''u2'' 7
   \<and> actionButton
     [\<lparr>target_id = ''u1'', availability_id = 3\<rparr>, \<lparr>target_id = ''u2'', availability_id = 7\<rparr>]
     False \<lparr>person_user_id = ''u2'', person_availability_id = 7\<rparr> = InterestExpressed
   \<and> actionButton
     [\<lparr>target_id = ''u1'', availability_id = 3\<rparr>, \<lparr>target_id = ''u2'', availability_id = 7\<rparr>]
     False \<lparr>person_user_id = ''u2'', person_availability_id = 3\<rparr> = ImInterested False"
  using hasExpressedInterest_iff
    [of "[\<lparr>target_id = ''u1'', availability_id = 3\<rparr>, \<lparr>target_id = ''u2'', availability_id = 7\<rparr>]"
        "''u2''" 7 False "\<lparr>person_user_id = ''u2'', person_availability_id = 7\<rparr>"]
    hasExpressedInterest_iff
    [of "[\<lparr>target_id = ''u1'', availability_id = 3\<rparr>, \<lparr>target_id = ''u2'', availability_id = 7\<rparr>]"
        "''u2''" 7 False "\<lparr>person_user_id = ''u2'', person_availability_id = 3\<rparr>"]
  by simp

text \<open>
  C7. In Meetups.tsx the three lists hold exactly the fetched matches of status
  \<^verbatim>\<open>pending\<close>, \<^verbatim>\<open>time_proposed\<close> and \<^verbatim>\<open>confirmed\<close>, no two of them share a match, a
  fetched match of one of the three statuses is in exactly one of them, and a match of any
  other status is in none. The two lists of Dashboard.tsx split the same matches in two.
\<close>

theorem match_status_partition:
  "set (pendingMatches ms) = {m \<in> set ms. m_status m = ''pending''}
   \<and> set (proposedMatches ms) = {m \<in> set ms. m_status m = ''time_proposed''}
   \<and> set (confirmedMatches ms) = {m \<in> set ms. m_status m = ''confirmed''}
   \<and> set (pendingMatches ms) \<inter> set (proposedMatches ms) = {}
   \<and> set (pendingMatches ms) \<inter> set (confirmedMatches ms) = {}
   \<and> set (proposedMatches ms) \<inter> set (confirmedMatches ms) = {}
   \<and> shown_in m [pendingMatches ms, proposedMatches ms, confirmedMatches ms] =
       (if m \<in> set ms \<and> m_status m \<in> {''pending'', ''time_proposed'', ''confirmed''}
        then 1 else 0)
   \<and> shown_in m [confirmedMatches_Dashboard ms, pendingMatches_Dashboard ms] =
       (if m \<in> set ms \<and> m_status m \<in> {''pending'', ''time_proposed'', ''confirmed''}
        then 1 else 0)"
  by (auto simp: pendingMatches_def proposedMatches_def confirmedMatches_def
      confirmedMatches_Dashboard_def pendingMatches_Dashboard_def shown_in_def)

subsection \<open>The controls of a match card\<close>

lemma offers_confirm_proposedCard:
  "offers_confirm (proposedCard userId ui m) \<longleftrightarrow> \<not> isMyProposal m userId"
  by (simp add: offers_confirm_def proposedCard_def)

lemma offers_confirm_pendingCard: "\<not> offers_confirm (pendingCard ui m)"
  by (simp add: offers_confirm_def pendingCard_def)

lemma offers_propose_pendingCard: "offers_propose (pendingCard ui m)"
  by (simp add: offers_propose_def pendingCard_def)

lemma offers_confirm_pendingCard_Dashboard:
  "offers_confirm (pendingCard_Dashboard userId ui m)
     \<longleftrightarrow> m_status m \<noteq> ''pending'' \<and> \<not> isMyProposal m userId"
  by (simp add: offers_confirm_def pendingCard_Dashboard_def Let_def)

lemma offers_propose_pendingCard_Dashboard:
  "m_status m = ''pending'' \<Longrightarrow> offers_propose (pendingCard_Dashboard userId ui m)"
  by (simp add: offers_propose_def pendingCard_Dashboard_def)

lemma offers_confirm_Nil: "\<not> offers_confirm []"
  by (simp add: offers_confirm_def)

lemma isMyProposal_same: "isMyProposal m (Some u) \<longleftrightarrow> proposed_by_id m = Some u"
  by (auto simp: isMyProposal_def split: option.splits)

text \<open>
  C5. On the Meetups page and in the matches section of the Dashboard, a card offers the
  confirm action exactly when the match has status \<^verbatim>\<open>time_proposed\<close> and
  \<^verbatim>\<open>proposed_by_id\<close> is not the viewing user's id; a card of a \<^verbatim>\<open>pending\<close> match offers
  the proposal of a time and no confirmation. For a logged-in viewer \<open>u\<close>, "my proposal"
  means \<^verbatim>\<open>proposed_by_id\<close> is \<open>u\<close>, so the proposer is never offered the confirmation of
  their own proposal.
\<close>

theorem confirm_gating:
  "(\<forall>(m, cs) \<in> set (Meetups isLoading userId ui ms).
      (offers_confirm cs \<longleftrightarrow> m_status m = ''time_proposed'' \<and> \<not> isMyProposal m userId)
      \<and> (m_status m = ''pending'' \<longrightarrow> offers_propose cs \<and> \<not> offers_confirm cs))
   \<and> (\<forall>(m, cs) \<in> set (Dashboard_matches userId ui ms).
      (offers_confirm cs \<longleftrightarrow> m_status m = ''time_proposed'' \<and> \<not> isMyProposal m userId)
      \<and> (m_status m = ''pending'' \<longrightarrow> offers_propose cs \<and> \<not> offers_confirm cs))
   \<and> (isMyProposal m (Some u) \<longleftrightarrow> proposed_by_id m = Some u)"
proof (intro conjI)
  show "\<forall>(m, cs) \<in> set (Meetups isLoading userId ui ms).
      (offers_confirm cs \<longleftrightarrow> m_status m = ''time_proposed'' \<and> \<not> isMyProposal m userId)
      \<and> (m_status m = ''pending'' \<longrightarrow> offers_propose cs \<and> \<not> offers_confirm cs)"
    by (auto simp: Meetups_def confirmedMatches_def proposedMatches_def pendingMatches_def
        offers_confirm_proposedCard offers_confirm_pendingCard offers_propose_pendingCard
        offers_confirm_Nil)
  show "\<forall>(m, cs) \<in> set (Dashboard_matches userId ui ms).
      (offers_confirm cs \<longleftrightarrow> m_status m = ''time_proposed'' \<and> \<not> isMyProposal m userId)
      \<and> (m_status m = ''pending'' \<longrightarrow> offers_propose cs \<and> \<not> offers_confirm cs)"
    by (auto simp: Dashboard_matches_def confirmedMatches_Dashboard_def
        pendingMatches_Dashboard_def offers_confirm_pendingCard_Dashboard offers_confirm_Nil
        offers_propose_pendingCard_Dashboard)
  show "isMyProposal m (Some u) \<longleftrightarrow> proposed_by_id m = Some u"
    by (rule isMyProposal_same)
qed

theorem confirm_gating_witness:
  "Meetups False (Some ''u1'') ui_idle [match_new, match_mine, match_theirs] =
     [(match_mine, [WaitingToConfirm]),
      (match_theirs, [Confirm False, SuggestDifferentTime]),
      (match_new, [ProposeATime])]
   \<and> Dashboard_matches (Some ''u1'') ui_idle [match_new, match_mine, match_theirs] =
     [(match_new, [ProposeATime]),
      (match_mine, [WaitingToConfirm]),
      (match_theirs, [Confirm False, SuggestDifferentTime])]
   \<and> offers_confirm [Confirm False, SuggestDifferentTime]
   \<and> \<not> offers_confirm [WaitingToConfirm]
   \<and> \<not> offers_confirm [ProposeATime]
   \<and> isMyProposal match_mine (Some ''u1'')
   \<and> \<not> isMyProposal match_theirs (Some ''u1'')"
  using confirm_gating [of False "Some ''u1''" ui_idle "[match_new, match_mine, match_theirs]"
      match_mine "''u1''"]
  by (simp add: Meetups_def Dashboard_matches_def confirmedMatches_def proposedMatches_def
      pendingMatches_def confirmedMatches_Dashboard_def pendingMatches_Dashboard_def
      proposedCard_def pendingCard_def pendingCard_Dashboard_def isMyProposal_def
      offers_confirm_def match_new_def match_mine_def match_theirs_def ui_idle_def)

subsection \<open>The availability form\<close>

lemma sort_eq_Nil_iff: "sort xs = [] \<longleftrightarrow> xs = []"
  by (metis length_sort length_0_conv)

lemma digit_Some: "digit c = Some d \<Longrightarrow> d \<le> 9 \<and> (of_char c :: nat) = d + 48"
  by (auto simp: digit_def less_eq_char_def split: if_splits)

lemma clock_minutes_Some:
  assumes "clock_minutes s = Some n"
  obtains h1 h2 m1 m2 a b x y where "s = [h1, h2, CHR '':'', m1, m2]"
    "digit h1 = Some a" "digit h2 = Some b" "digit m1 = Some x" "digit m2 = Some y"
    "10 * x + y < 60" "n = (10 * a + b) * 60 + (10 * x + y)"
  using assms
  by (cases s rule: clock_minutes.cases) (auto split: option.splits if_splits)

lemma char_less_iff: "c < d \<longleftrightarrow> (of_char c :: nat) < of_char d"
  by (simp add: less_char_def)

lemma char_eq_iff: "c = d \<longleftrightarrow> (of_char c :: nat) = of_char d"
  by (metis of_char_eq_iff)

text \<open>On strings of the form \<^verbatim>\<open>HH:MM\<close> the order of the strings is the order of the
  clock times.\<close>

lemma hhmm_order:
  assumes "clock_minutes s = Some m" and "clock_minutes t = Some n"
  shows "s < t \<longleftrightarrow> m < n"
proof -
  from assms(1) obtain h1 h2 m1 m2 a b x y where
    s: "s = [h1, h2, CHR '':'', m1, m2]"
    and d: "digit h1 = Some a" "digit h2 = Some b" "digit m1 = Some x" "digit m2 = Some y"
    and r: "10 * x + y < 60" and m: "m = (10 * a + b) * 60 + (10 * x + y)"
    by (rule clock_minutes_Some)
  from assms(2) obtain h1' h2' m1' m2' a' b' x' y' where
    t: "t = [h1', h2', CHR '':'', m1', m2']"
    and d': "digit h1' = Some a'" "digit h2' = Some b'" "digit m1' = Some x'" "digit m2' = Some y'"
    and r': "10 * x' + y' < 60" and n: "n = (10 * a' + b') * 60 + (10 * x' + y')"
    by (rule clock_minutes_Some)
  note b = d [THEN digit_Some] d' [THEN digit_Some]
  have "s < t \<longleftrightarrow>
          a < a' \<or> a = a' \<and> (b < b' \<or> b = b' \<and> (x < x' \<or> x = x' \<and> y < y'))"
    using b by (simp add: s t char_less_iff char_eq_iff)
  also have "\<dots> \<longleftrightarrow> m < n"
    using b r r' unfolding m n by auto
  finally show ?thesis .
qed

text \<open>
  C3. \<^verbatim>\<open>handleSubmit\<close> calls \<^verbatim>\<open>onSubmit\<close> exactly when a location is selected, at least
  one day is toggled and \<^verbatim>\<open>timeStart\<close> is strictly below \<^verbatim>\<open>timeEnd\<close> (in the order in
  which the code compares the two strings). Otherwise it sets one of its three error messages
  and calls nothing. The submitted data has \<^verbatim>\<open>time_start < time_end\<close> and a non-empty
  \<^verbatim>\<open>repeat_days\<close>, the toggled days in ascending order; where the two times have the
  form \<^verbatim>\<open>HH:MM\<close>, the start is the earlier clock time.
\<close>

theorem handleSubmit_validates:
  "(snd (handleSubmit onSubmit st) \<noteq> None
      \<longleftrightarrow> location st \<noteq> None \<and> repeatDays st \<noteq> [] \<and> timeStart st < timeEnd st)
   \<and> (snd (handleSubmit onSubmit st) = None
      \<longrightarrow> error (fst (handleSubmit onSubmit st)) \<in>
            {''Please select a location'', ''Please select at least one day'',
             ''End time must be after start time''})
   \<and> (\<forall>d. snd (handleSubmit onSubmit st) = Some d
      \<longrightarrow> time_start d < time_end d \<and> repeat_days d \<noteq> []
          \<and> repeat_days d = sort (repeatDays st)
          \<and> time_start d = timeStart st \<and> time_end d = timeEnd st
          \<and> (\<forall>m n. clock_minutes (time_start d) = Some m \<and> clock_minutes (time_end d) = Some n
                 \<longrightarrow> m < n))"
proof -
  have "m < n" if "\<not> t \<le> s" and "clock_minutes s = Some m" and "clock_minutes t = Some n"
    for s t m n using that hhmm_order [of s m t n] by (simp add: not_le)
  then show ?thesis
    by (auto simp: handleSubmit_def Let_def sort_eq_Nil_iff split: option.splits)
qed

theorem handleSubmit_validates_witness:
  "snd (handleSubmit (\<lambda>_. None) (form_filled ''09:00'' ''17:00''))
     = Some \<lparr>location_name = ''Cafe'', latitude = 40, longitude = -74, radius_meters = None,
             time_start = ''09:00'', time_end = ''17:00'', repeat_days = [0, 2]\<rparr>
   \<and> ''09:00'' < ''17:00''
   \<and> clock_minutes ''09:00'' = Some 540 \<and> clock_minutes ''17:00'' = Some 1020
   \<and> snd (handleSubmit (\<lambda>_. None) (form_filled ''17:00'' ''09:00'')) = None
   \<and> error (fst (handleSubmit (\<lambda>_. None) (form_filled ''17:00'' ''09:00'')))
     = ''End time must be after start time''"
  using handleSubmit_validates [of "\<lambda>_. None" "form_filled ''09:00'' ''17:00''"]
    handleSubmit_validates [of "\<lambda>_. None" "form_filled ''17:00'' ''09:00''"]
  by (simp add: handleSubmit_def form_filled_def Let_def digit_def)

subsection \<open>Saving a spot from the map\<close>

text \<open>
  C4. The claim is that an enabled save button always sends a non-empty
  \<^verbatim>\<open>repeat_days\<close>. With "Repeat weekly" ticked and no day toggled the button is enabled and
  \<^verbatim>\<open>handleSaveSpot\<close> sends the empty list, which the availability form refuses with
  "Please select at least one day".
\<close>

theorem handleSaveSpot_weekly_without_days:
  "save_enabled False (spot_form [] True [])
   \<and> map_option new_repeat_days (handleSaveSpot (\<lambda>_. 0) (spot_form [] True [])) = Some []
   \<and> snd (handleSubmit (\<lambda>_. None) ((form_filled ''09:00'' ''17:00'')\<lparr>repeatDays := []\<rparr>)) = None"
  by (simp add: save_enabled_def save_disabled_def handleSaveSpot_def spot_form_def
      handleSubmit_def form_filled_def)

text \<open>
  C10. For a spot saved without weekly repeat and with a chosen date, \<^verbatim>\<open>handleSaveSpot\<close>
  sends the one-element list \<^verbatim>\<open>[(date.getDay() + 6) % 7]\<close>. For every weekday number
  \<^verbatim>\<open>getDay\<close> can return (0 to 6, Sunday first) the element is in 0..6 and names, in
  \<^verbatim>\<open>DAY_NAMES\<close> (Monday first), the weekday that \<^verbatim>\<open>getDay\<close> reported.
\<close>

theorem handleSaveSpot_weekday:
  assumes "newSpot st = Some spot" and "\<not> newSpotRepeat st" and "newSpotDate st \<noteq> []"
    and "getDay (newSpotDate st) < 7"
  shows "\<exists>d. handleSaveSpot getDay st = Some d
           \<and> new_repeat_days d = [(getDay (newSpotDate st) + 6) mod 7]
           \<and> (getDay (newSpotDate st) + 6) mod 7 < 7
           \<and> DAY_NAMES ! ((getDay (newSpotDate st) + 6) mod 7)
               = getDay_names ! getDay (newSpotDate st)"
proof -
  let ?g = "getDay (newSpotDate st)"
  have "?g \<in> {0, 1, 2, 3, 4, 5, 6}" using assms(4) by auto
  then have "DAY_NAMES ! ((?g + 6) mod 7) = getDay_names ! ?g"
    by (auto simp: DAY_NAMES_def getDay_names_def)
  then show ?thesis using assms by (simp add: handleSaveSpot_def Let_def)
qed

theorem handleSaveSpot_weekday_witness:
  "\<exists>d. handleSaveSpot (\<lambda>_. 0) (spot_form ''2025-06-01'' False []) = Some d
     \<and> new_repeat_days d = [6] \<and> DAY_NAMES ! 6 = getDay_names ! 0"
  using handleSaveSpot_weekday [of "spot_form ''2025-06-01'' False []"
      "\<lparr>lat = 40, lng = -74, spot_address = ''1 Main St''\<rparr>" "\<lambda>_. 0"]
  by (simp add: spot_form_def)

subsection \<open>The overlap evaluator\<close>

text \<open>
  C9. For all slots A and B, \<^verbatim>\<open>overlaps(A, B)\<close> equals \<^verbatim>\<open>overlaps(B, A)\<close>: the same
  overlap flag and the same windows.
\<close>

theorem overlaps_symmetric:
  "overlaps slotA slotB = overlaps slotB slotA
   \<and> overlap (overlaps slotA slotB) = overlap (overlaps slotB slotA)
   \<and> windows (overlaps slotA slotB) = windows (overlaps slotB slotA)"
  by (simp add: overlaps_def Let_def Int_commute max.commute min.commute)

subsection \<open>The interest ledger\<close>

lemma count_list_distinct: "distinct xs \<Longrightarrow> x \<in> set xs \<Longrightarrow> count_list xs x = 1"
  by (induction xs) auto

lemma createOnReciprocity_ledger:
  "createOnReciprocity a b ctx st = Inr st' \<Longrightarrow> ledger st' = ledger st"
  by (auto simp: createOnReciprocity_def split: if_splits)

lemma expressInterest_ledger:
  "expressInterest e a t s st = Inr (st', out) \<Longrightarrow>
   ledger st' = (if (a, t, s) \<in> set (ledger st) then ledger st else ledger st @ [(a, t, s)])"
  by (auto simp: expressInterest_def Let_def split: if_splits sum.splits
      dest: createOnReciprocity_ledger)

lemma expressInterest_total:
  "a \<noteq> t \<Longrightarrow> \<exists>st' out. expressInterest e a t s st = Inr (st', out)"
  by (auto simp: expressInterest_def Let_def split: sum.splits)

lemma expressInterest_outcome:
  "expressInterest e a t s st = Inr (st', out) \<Longrightarrow> mutual_match out = reciprocated e st a t s"
  by (auto simp: expressInterest_def Let_def split: if_splits sum.splits)

lemma requestJoin_ledger: "requestJoin e g u st = Inr (st', t) \<Longrightarrow> ledger st' = ledger st"
  by (auto simp: requestJoin_def Let_def split: if_splits)

lemma respondToJoinRequest_ledger:
  "respondToJoinRequest r u b st = Inr st' \<Longrightarrow> ledger st' = ledger st"
  by (auto simp: respondToJoinRequest_def Let_def split: if_splits)

lemma apply_call_distinct: "distinct (ledger st) \<Longrightarrow> distinct (ledger (apply_call e st c))"
  by (cases c)
    (auto simp: apply_call_def split: sum.splits
      dest!: expressInterest_ledger requestJoin_ledger respondToJoinRequest_ledger)

lemma run_snoc: "run e (calls @ [c]) = apply_call e (run e calls) c"
  by (simp add: run_def)

lemma run_distinct: "distinct (ledger (run e calls))"
proof (induction calls rule: rev_induct)
  case Nil
  show ?case by (simp add: run_def initial_engine_def)
next
  case (snoc c calls)
  then show ?case by (simp add: run_snoc apply_call_distinct)
qed

text \<open>
  C2. In every state reached by a run of calls, for an actor and a target that differ, the
  call \<^verbatim>\<open>expressInterest(actor, target, slot)\<close> succeeds; the same call made again
  succeeds, leaves the whole state (ledger, matches, groups, requests) as the first call left
  it, so that matching is not triggered again, the ledger holds exactly one record of the
  triple, and the second call reports the mutual-match outcome of the first.
\<close>

theorem expressInterest_idempotent:
  assumes "actor \<noteq> target"
  shows "\<exists>st1 out1 out2.
           expressInterest e actor target slotId (run e calls) = Inr (st1, out1)
         \<and> expressInterest e actor target slotId st1 = Inr (st1, out2)
         \<and> count_list (ledger st1) (actor, target, slotId) = 1
         \<and> mutual_match out2 = mutual_match out1"
proof -
  let ?st = "run e calls"
  obtain st1 out1 where first: "expressInterest e actor target slotId ?st = Inr (st1, out1)"
    using expressInterest_total [OF assms] by blast
  have led: "ledger st1 = (if (actor, target, slotId) \<in> set (ledger ?st) then ledger ?st
                           else ledger ?st @ [(actor, target, slotId)])"
    using expressInterest_ledger [OF first] .
  then have mem: "(actor, target, slotId) \<in> set (ledger st1)" by (simp split: if_splits)
  have dist: "distinct (ledger st1)" using led run_distinct [of e calls] by (simp split: if_splits)
  have cnt: "count_list (ledger st1) (actor, target, slotId) = 1"
    using mem dist by (simp add: count_list_distinct)
  have same: "reciprocated e st1 actor target slotId = reciprocated e ?st actor target slotId"
    using led assms by (auto simp: reciprocated_def list_ex_iff split: if_splits)
  let ?out2 = "\<lparr>mutual_match = reciprocated e st1 actor target slotId,
                 conflict = Some DuplicateExpression\<rparr>"
  have second: "expressInterest e actor target slotId st1 = Inr (st1, ?out2)"
    using mem assms by (simp add: expressInterest_def)
  have "mutual_match ?out2 = mutual_match out1"
    using expressInterest_outcome [OF first] same by simp
  with first second cnt show ?thesis by blast
qed

lemma run_pair: "run (central_park 2 2)
     [ExpressInterest ''alex'' ''jordan'' 2, ExpressInterest ''jordan'' ''alex'' 1] = pair_engine"
  by code_simp

theorem expressInterest_idempotent_witness:
  "\<exists>out1 out2.
      expressInterest (central_park 2 2) ''jordan'' ''alex'' 1
         (run (central_park 2 2) [ExpressInterest ''alex'' ''jordan'' 2]) = Inr (pair_engine, out1)
    \<and> expressInterest (central_park 2 2) ''jordan'' ''alex'' 1 pair_engine = Inr (pair_engine, out2)
    \<and> count_list (ledger pair_engine) (''jordan'', ''alex'', 1) = 1
    \<and> mutual_match out1 \<and> mutual_match out2"
proof -
  have ne: "''jordan'' \<noteq> ''alex''" by simp
  from expressInterest_idempotent [OF ne, of "central_park 2 2" 1 "[ExpressInterest ''alex'' ''jordan'' 2]"]
  obtain st1 out1 out2 where
    a: "expressInterest (central_park 2 2) ''jordan'' ''alex'' 1
         (run (central_park 2 2) [ExpressInterest ''alex'' ''jordan'' 2]) = Inr (st1, out1)"
    and b: "expressInterest (central_park 2 2) ''jordan'' ''alex'' 1 st1 = Inr (st1, out2)"
    and c: "count_list (ledger st1) (''jordan'', ''alex'', 1) = 1"
    and d: "mutual_match out2 = mutual_match out1" by blast
  have "apply_call (central_park 2 2) (run (central_park 2 2) [ExpressInterest ''alex'' ''jordan'' 2])
          (ExpressInterest ''jordan'' ''alex'' 1) = pair_engine"
    using run_pair run_snoc [of "central_park 2 2" "[ExpressInterest ''alex'' ''jordan'' 2]"
        "ExpressInterest ''jordan'' ''alex'' 1"] by simp
  with a have st1: "st1 = pair_engine" by (simp add: apply_call_def)
  have "reciprocated (central_park 2 2)
          (run (central_park 2 2) [ExpressInterest ''alex'' ''jordan'' 2]) ''jordan'' ''alex'' 1"
    by code_simp
  then have "mutual_match out1"
    using expressInterest_outcome [OF a] by simp
  with a b c d st1 show ?thesis by auto
qed

subsection \<open>The group engine\<close>

lemma confirmed_members_add_confirmed:
  "confirmed_members (add_confirmed g u) =
     (if u \<in> set (confirmed_members g) then confirmed_members g else confirmed_members g @ [u])"
  by (simp add: add_confirmed_def confirmed_members_def)

lemma anchor_add_confirmed: "anchor (add_confirmed g u) = anchor g"
  by (simp add: add_confirmed_def)

lemma anchor_foldl_add_confirmed: "anchor (foldl add_confirmed g us) = anchor g"
  by (induction us arbitrary: g) (simp_all add: anchor_add_confirmed)

lemma formOrJoin_existing:
  "find (\<lambda>g. anchor g = ctx) gs = Some h \<Longrightarrow>
   find (\<lambda>g. anchor g = ctx) (formOrJoin ctx us gs) = Some (foldl add_confirmed h us)"
  by (induction gs) (auto simp: anchor_foldl_add_confirmed)

lemma requestJoin_GroupFull_iff:
  assumes "groupId < length (groups st)"
    and "requesterId \<notin> set (confirmed_members (groups st ! groupId))"
    and "\<not> list_ex (\<lambda>r. jr_group r = groupId \<and> jr_requester r = requesterId
                        \<and> jr_status r = request_pending) (join_requests st)"
  shows "requestJoin e groupId requesterId st = Inl GroupFull
     \<longleftrightarrow> (\<exists>m \<in> set (confirmed_members (groups st ! groupId)).
            max_group_size (getUser e m) \<le> confirmedMemberCount (groups st ! groupId))"
  using assms by (auto simp: requestJoin_def Let_def list_ex_iff)

lemma requestJoin_accepted:
  assumes "requestJoin e groupId requesterId st = Inr (st', t)"
  shows "(\<forall>m \<in> set (confirmed_members (groups st ! groupId)).
            confirmedMemberCount (groups st ! groupId) < max_group_size (getUser e m))
         \<and> groups st' = groups st
         \<and> join_requests st' = join_requests st
             @ [\<lparr>jr_group = groupId, jr_requester = requesterId, jr_status = request_pending\<rparr>]"
  using assms by (auto simp: requestJoin_def Let_def list_ex_iff split: if_splits)

text \<open>
  C1, as amended. For a requester who is not a confirmed member and has no pending request,
  \<^verbatim>\<open>requestJoin\<close> is rejected with \<^verbatim>\<open>GroupFull\<close> exactly when the confirmed-member
  count has reached the \<^verbatim>\<open>max_group_size\<close> of some confirmed member. A request that is
  created finds the count strictly below every confirmed member's \<^verbatim>\<open>max_group_size\<close> and
  changes no membership. \<^verbatim>\<open>formOrJoin\<close> on a context that has a group adds the new
  mutual matcher as a confirmed member, one more than before, whatever the sizes the members
  prefer.
\<close>

theorem requestJoin_caps_formOrJoin_direct:
  "(groupId < length (groups st)
    \<and> requesterId \<notin> set (confirmed_members (groups st ! groupId))
    \<and> \<not> list_ex (\<lambda>r. jr_group r = groupId \<and> jr_requester r = requesterId
                      \<and> jr_status r = request_pending) (join_requests st)
    \<longrightarrow> (requestJoin e groupId requesterId st = Inl GroupFull
          \<longleftrightarrow> (\<exists>m \<in> set (confirmed_members (groups st ! groupId)).
                 max_group_size (getUser e m) \<le> confirmedMemberCount (groups st ! groupId))))
   \<and> (\<forall>st' t. requestJoin e groupId requesterId st = Inr (st', t)
        \<longrightarrow> (\<forall>m \<in> set (confirmed_members (groups st ! groupId)).
               confirmedMemberCount (groups st ! groupId) < max_group_size (getUser e m))
            \<and> groups st' = groups st)
   \<and> (find (\<lambda>g. anchor g = ctx) gs = Some h
       \<and> u \<notin> set (confirmed_members h) \<and> w \<in> set (confirmed_members h)
      \<longrightarrow> (\<exists>h'. find (\<lambda>g. anchor g = ctx) (formOrJoin ctx [u, w] gs) = Some h'
              \<and> confirmed_members h' = confirmed_members h @ [u]
              \<and> confirmedMemberCount h' = confirmedMemberCount h + 1))"
proof (intro conjI impI allI)
  assume "groupId < length (groups st)
    \<and> requesterId \<notin> set (confirmed_members (groups st ! groupId))
    \<and> \<not> list_ex (\<lambda>r. jr_group r = groupId \<and> jr_requester r = requesterId
                      \<and> jr_status r = request_pending) (join_requests st)"
  then show "requestJoin e groupId requesterId st = Inl GroupFull
          \<longleftrightarrow> (\<exists>m \<in> set (confirmed_members (groups st ! groupId)).
                 max_group_size (getUser e m) \<le> confirmedMemberCount (groups st ! groupId))"
    using requestJoin_GroupFull_iff by blast
next
  fix st' t
  assume "requestJoin e groupId requesterId st = Inr (st', t)"
  from requestJoin_accepted [OF this]
  show "\<forall>m \<in> set (confirmed_members (groups st ! groupId)).
               confirmedMemberCount (groups st ! groupId) < max_group_size (getUser e m)"
    and "groups st' = groups st" by blast+
next
  assume a: "find (\<lambda>g. anchor g = ctx) gs = Some h
       \<and> u \<notin> set (confirmed_members h) \<and> w \<in> set (confirmed_members h)"
  let ?h' = "foldl add_confirmed h [u, w]"
  have "find (\<lambda>g. anchor g = ctx) (formOrJoin ctx [u, w] gs) = Some ?h'"
    using a formOrJoin_existing by blast
  moreover have "confirmed_members ?h' = confirmed_members h @ [u]"
    using a by (simp add: confirmed_members_add_confirmed)
  ultimately show "\<exists>h'. find (\<lambda>g. anchor g = ctx) (formOrJoin ctx [u, w] gs) = Some h'
              \<and> confirmed_members h' = confirmed_members h @ [u]
              \<and> confirmedMemberCount h' = confirmedMemberCount h + 1"
    by (simp add: confirmedMemberCount_def)
qed

theorem requestJoin_caps_formOrJoin_direct_witness:
  "requestJoin (central_park 2 2) 0 ''sam'' pair_engine = Inl GroupFull
   \<and> (\<exists>h'. find (\<lambda>g. anchor g = 1) (formOrJoin 1 [''sam'', ''alex''] [pair_group]) = Some h'
          \<and> confirmed_members h' = [''jordan'', ''alex'', ''sam''])"
  using requestJoin_caps_formOrJoin_direct [of 0 pair_engine "''sam''" "central_park 2 2"
      1 "[pair_group]" pair_group "''sam''" "''alex''"]
  by (simp add: pair_engine_def pair_group_def confirmed_members_def confirmedMemberCount_def
      central_park_def a_user_def requestJoin_def add_confirmed_def)

text \<open>
  C1, as claimed, makes the size bound an invariant of every reachable state. It fails after
  four calls: Alex (largest group 2) and Jordan match at Alex's slot, then Sam and Alex match
  at the same slot, and \<^verbatim>\<open>formOrJoin\<close> makes Sam the third confirmed member.
\<close>

theorem group_size_invariant_counterexample:
  "\<not> group_size_invariant (central_park 2 2)
       (run (central_park 2 2)
          [ExpressInterest ''alex'' ''jordan'' 2, ExpressInterest ''jordan'' ''alex'' 1,
           ExpressInterest ''alex'' ''sam'' 3, ExpressInterest ''sam'' ''alex'' 1])"
  by code_simp

subsection \<open>The discovery view\<close>

lemma ranking_key_le:
  "ranking_key e v p \<le> ranking_key e v q \<longleftrightarrow> ranks_no_later e v p q"
  by (auto simp: ranking_key_def ranks_no_later_def Let_def)

lemma ranking_key_eq:
  "ranking_key e v p = ranking_key e v q
     \<longleftrightarrow> ranks_no_later e v p q \<and> ranks_no_later e v q p"
  using ranking_key_le [of e v p q] ranking_key_le [of e v q p] by auto

lemma sorted_ranked:
  "sorted_wrt (ranks_no_later e v) (sort_key (ranking_key e v) xs)"
proof -
  have "sorted (map (ranking_key e v) (sort_key (ranking_key e v) xs))"
    by (rule sorted_sort_key)
  then show ?thesis
    by (simp add: sorted_map ranking_key_le)
qed

lemma stable_ranked:
  "filter (\<lambda>p. ranks_no_later e v p r \<and> ranks_no_later e v r p) (sort_key (ranking_key e v) xs)
     = filter (\<lambda>p. ranks_no_later e v p r \<and> ranks_no_later e v r p) xs"
  using sort_key_stable [of "ranking_key e v" "ranking_key e v r" xs]
  by (simp add: ranking_key_eq)

lemma three_tiers:
  assumes "mset xs = {#p1, p2, p3#}"
    and "preference_tier (getUser e v) (getUser e (pv_user p1)) = FullMatch"
    and "preference_tier (getUser e v) (getUser e (pv_user p2)) = PartialMatch"
    and "preference_tier (getUser e v) (getUser e (pv_user p3)) = NoMatch"
  shows "sort_key (ranking_key e v) xs = [p1, p2, p3]"
proof (rule sort_key_inj_key_eq)
  show "mset xs = mset [p1, p2, p3]" using assms(1) by (simp add: add_mset_commute)
  have "set xs = {p1, p2, p3}" using assms(1) by (metis set_mset_mset set_mset_add_mset_insert set_mset_empty insert_commute)
  then show "inj_on (ranking_key e v) (set xs)"
    using assms(2-4) by (auto simp: inj_on_def ranking_key_def)
  show "sorted (map (ranking_key e v) [p1, p2, p3])"
    using assms(2-4) by (simp add: ranking_key_def)
qed

lemma created_in_order:
  assumes "preference_tier (getUser e v) (getUser e (pv_user p1)) = FullMatch"
    and "preference_tier (getUser e v) (getUser e (pv_user p2)) \<noteq> FullMatch"
    and "preference_tier (getUser e v) (getUser e (pv_user p3)) \<noteq> FullMatch"
    and "ranks_no_later e v p2 p3"
  shows "sort_key (ranking_key e v) [p1, p2, p3] = [p1, p2, p3]"
proof -
  have r: "0 < tier_rank t" if "t \<noteq> FullMatch" for t using that by (cases t) auto
  have "ranking_key e v p1 \<le> ranking_key e v p2" "ranking_key e v p1 \<le> ranking_key e v p3"
    using assms(1-3) r by (auto simp: ranking_key_def)
  moreover have "ranking_key e v p2 \<le> ranking_key e v p3"
    using assms(4) by (simp add: ranking_key_le)
  ultimately have "sorted (map (ranking_key e v) [p1, p2, p3])" by simp
  then show ?thesis by (rule sort_key_id_if_sorted)
qed

lemma scenario_E_tiers:
  assumes "min_age_pref viewer = Some 25" and "max_age_pref viewer = Some 35"
    and "gender_pref viewer = {''female''}"
  shows "age p = 28 \<and> gender p = ''female'' \<Longrightarrow>
           preference_tier viewer p = (if accepts p viewer then FullMatch else PartialMatch)"
    and "age p = 30 \<and> gender p = ''male'' \<Longrightarrow>
           preference_tier viewer p = (if accepts p viewer then PartialMatch else NoMatch)"
    and "age p = 40 \<and> gender p = ''female'' \<Longrightarrow>
           preference_tier viewer p = (if accepts p viewer then PartialMatch else NoMatch)"
  using assms by (auto simp: preference_tier_def accepts_def)

text \<open>
  C8. For a known slot \<^verbatim>\<open>peopleAtLocation\<close> returns the gathered views
  rearranged so that no view is ranked after a later one: full matches (both directions of
  the preference check) before partial ones (exactly one direction) before the rest, within a
  tier overlap first, then more shared interests first; views that tie keep their slot
  creation order. Three people who are a full, a partial and a no match are listed in that
  order, however their slots were created. Three people created in the order full match,
  then two others of which the second is not ranked after the third, are listed as created.
  For the viewer of Scenario E (ages 25 to 35, women), the woman of 28 is a full match if her
  own preferences accept the viewer, and the man of 30 and the woman of 40 are each a partial
  match if their own preferences accept the viewer and no match otherwise.
\<close>

theorem peopleAtLocation_ordering:
  assumes "getSlotById e slotId = Some target"
  shows "\<exists>out. peopleAtLocation e v slotId = Inr out
      \<and> mset out = mset (gather e v target)
      \<and> sorted_wrt (ranks_no_later e v) out
      \<and> (\<forall>r. filter (\<lambda>p. ranks_no_later e v p r \<and> ranks_no_later e v r p) out
             = filter (\<lambda>p. ranks_no_later e v p r \<and> ranks_no_later e v r p) (gather e v target))
      \<and> (\<forall>p1 p2 p3.
            mset (gather e v target) = {#p1, p2, p3#}
            \<and> preference_tier (getUser e v) (getUser e (pv_user p1)) = FullMatch
            \<and> preference_tier (getUser e v) (getUser e (pv_user p2)) = PartialMatch
            \<and> preference_tier (getUser e v) (getUser e (pv_user p3)) = NoMatch
            \<longrightarrow> out = [p1, p2, p3])
      \<and> (\<forall>p1 p2 p3.
            gather e v target = [p1, p2, p3]
            \<and> preference_tier (getUser e v) (getUser e (pv_user p1)) = FullMatch
            \<and> preference_tier (getUser e v) (getUser e (pv_user p2)) \<noteq> FullMatch
            \<and> preference_tier (getUser e v) (getUser e (pv_user p3)) \<noteq> FullMatch
            \<and> ranks_no_later e v p2 p3
            \<longrightarrow> out = [p1, p2, p3])
      \<and> (min_age_pref (getUser e v) = Some 25 \<and> max_age_pref (getUser e v) = Some 35
           \<and> gender_pref (getUser e v) = {''female''}
          \<longrightarrow> (\<forall>p. (age p = 28 \<and> gender p = ''female''
                      \<longrightarrow> preference_tier (getUser e v) p
                          = (if accepts p (getUser e v) then FullMatch else PartialMatch))
                   \<and> (age p = 30 \<and> gender p = ''male''
                      \<longrightarrow> preference_tier (getUser e v) p
                          = (if accepts p (getUser e v) then PartialMatch else NoMatch))
                   \<and> (age p = 40 \<and> gender p = ''female''
                      \<longrightarrow> preference_tier (getUser e v) p
                          = (if accepts p (getUser e v) then PartialMatch else NoMatch))))"
proof -
  let ?out = "sort_key (ranking_key e v) (gather e v target)"
  have 1: "peopleAtLocation e v slotId = Inr ?out"
    using assms by (simp add: peopleAtLocation_def)
  have 2: "mset ?out = mset (gather e v target)" by simp
  have 3: "sorted_wrt (ranks_no_later e v) ?out" by (rule sorted_ranked)
  have 4: "\<forall>r. filter (\<lambda>p. ranks_no_later e v p r \<and> ranks_no_later e v r p) ?out
             = filter (\<lambda>p. ranks_no_later e v p r \<and> ranks_no_later e v r p) (gather e v target)"
    by (simp add: stable_ranked)
  have 5: "\<forall>p1 p2 p3.
            mset (gather e v target) = {#p1, p2, p3#}
            \<and> preference_tier (getUser e v) (getUser e (pv_user p1)) = FullMatch
            \<and> preference_tier (getUser e v) (getUser e (pv_user p2)) = PartialMatch
            \<and> preference_tier (getUser e v) (getUser e (pv_user p3)) = NoMatch
            \<longrightarrow> ?out = [p1, p2, p3]"
    by (intro allI impI) (rule three_tiers, simp_all)
  have 6: "\<forall>p1 p2 p3.
            gather e v target = [p1, p2, p3]
            \<and> preference_tier (getUser e v) (getUser e (pv_user p1)) = FullMatch
            \<and> preference_tier (getUser e v) (getUser e (pv_user p2)) \<noteq> FullMatch
            \<and> preference_tier (getUser e v) (getUser e (pv_user p3)) \<noteq> FullMatch
            \<and> ranks_no_later e v p2 p3
            \<longrightarrow> ?out = [p1, p2, p3]"
  proof (intro allI impI)
    fix p1 p2 p3
    assume a: "gather e v target = [p1, p2, p3]
            \<and> preference_tier (getUser e v) (getUser e (pv_user p1)) = FullMatch
            \<and> preference_tier (getUser e v) (getUser e (pv_user p2)) \<noteq> FullMatch
            \<and> preference_tier (getUser e v) (getUser e (pv_user p3)) \<noteq> FullMatch
            \<and> ranks_no_later e v p2 p3"
    then have "sort_key (ranking_key e v) [p1, p2, p3] = [p1, p2, p3]"
      by (intro created_in_order) simp_all
    with a show "?out = [p1, p2, p3]" by simp
  qed
  have 7: "min_age_pref (getUser e v) = Some 25 \<and> max_age_pref (getUser e v) = Some 35
           \<and> gender_pref (getUser e v) = {''female''}
          \<longrightarrow> (\<forall>p. (age p = 28 \<and> gender p = ''female''
                      \<longrightarrow> preference_tier (getUser e v) p
                          = (if accepts p (getUser e v) then FullMatch else PartialMatch))
                   \<and> (age p = 30 \<and> gender p = ''male''
                      \<longrightarrow> preference_tier (getUser e v) p
                          = (if accepts p (getUser e v) then PartialMatch else NoMatch))
                   \<and> (age p = 40 \<and> gender p = ''female''
                      \<longrightarrow> preference_tier (getUser e v) p
                          = (if accepts p (getUser e v) then PartialMatch else NoMatch)))"
    by (intro impI allI conjI) (simp_all add: scenario_E_tiers)
  show ?thesis
    by (rule exI [of _ ?out]) (intro conjI; fact)
qed

theorem peopleAtLocation_ordering_witness:
  "getSlotById (scenario_E (Some 29)) 1 = Some (park_slot 1 ''first'' 600 660 {0})
   \<and> (\<exists>out. peopleAtLocation (scenario_E (Some 29)) ''viewer'' 1 = Inr out
          \<and> map pv_user out = [''first'', ''second'', ''third'']
          \<and> sorted_wrt (ranks_no_later (scenario_E (Some 29)) ''viewer'') out)
   \<and> map (\<lambda>u. preference_tier (getUser (scenario_E (Some 29)) ''viewer'')
                 (getUser (scenario_E (Some 29)) u)) [''first'', ''second'', ''third'']
       = [FullMatch, PartialMatch, NoMatch]
   \<and> getSlotById (scenario_E None) 1 = Some (park_slot 1 ''first'' 600 660 {0})
   \<and> (\<exists>out. peopleAtLocation (scenario_E None) ''viewer'' 1 = Inr out
          \<and> map pv_user out = [''first'', ''second'', ''third'']
          \<and> sorted_wrt (ranks_no_later (scenario_E None) ''viewer'') out)"
proof -
  have shown: "\<exists>out. peopleAtLocation (scenario_E limit) ''viewer'' 1 = Inr out
          \<and> map pv_user out = [''first'', ''second'', ''third'']
          \<and> sorted_wrt (ranks_no_later (scenario_E limit) ''viewer'') out"
    if h: "getSlotById (scenario_E limit) 1 = Some (park_slot 1 ''first'' 600 660 {0})"
      and listed: "map_sum id (map pv_user) (peopleAtLocation (scenario_E limit) ''viewer'' 1)
          = Inr [''first'', ''second'', ''third'']"
    for limit
  proof -
    from peopleAtLocation_ordering [OF h, of "''viewer''"]
    obtain out where
      ab: "peopleAtLocation (scenario_E limit) ''viewer'' 1 = Inr out
         \<and> mset out = mset (gather (scenario_E limit) ''viewer''
                               (park_slot 1 ''first'' 600 660 {0}))
         \<and> sorted_wrt (ranks_no_later (scenario_E limit) ''viewer'') out"
      by (elim exE conjE) (rule that, intro conjI)
    then have a: "peopleAtLocation (scenario_E limit) ''viewer'' 1 = Inr out"
      and b: "sorted_wrt (ranks_no_later (scenario_E limit) ''viewer'') out"
      by simp_all
    from a listed have c: "map pv_user out = [''first'', ''second'', ''third'']" by simp
    from a b c show ?thesis by (intro exI [of _ out] conjI)
  qed
  have h: "getSlotById (scenario_E limit) 1 = Some (park_slot 1 ''first'' 600 660 {0})"
    for limit
    by (simp add: getSlotById_def scenario_E_def park_slot_def)
  have l1: "map_sum id (map pv_user) (peopleAtLocation (scenario_E (Some 29)) ''viewer'' 1)
          = Inr [''first'', ''second'', ''third'']"
    by code_simp
  have l2: "map_sum id (map pv_user) (peopleAtLocation (scenario_E None) ''viewer'' 1)
          = Inr [''first'', ''second'', ''third'']"
    by code_simp
  have d: "map (\<lambda>u. preference_tier (getUser (scenario_E (Some 29)) ''viewer'')
                 (getUser (scenario_E (Some 29)) u)) [''first'', ''second'', ''third'']
       = [FullMatch, PartialMatch, NoMatch]"
    by code_simp
  from h [of "Some 29"] shown [OF h l1] d h [of None] shown [OF h l2]
  show ?thesis by (intro conjI)
qed

end
